theory Spec2Isabelle
  imports Main "HOL-Library.Word" "HOL-Library.Sublist"
begin

unbundle bit_operations_syntax

section \<open>Values and outcomes\<close>

text \<open>
  The tools return Python dictionaries, lists, strings and booleans. A dictionary literal
  is kept as the list of its key/value pairs in the order the source writes them.
\<close>

datatype json = JStr string | JBool bool | JDict "(string \<times> json) list" | JList "json list"

text \<open>\<open>d.get(k)\<close> on a returned dictionary; \<open>None\<close> on a value that is no dictionary.\<close>

fun dict_get :: "json \<Rightarrow> string \<Rightarrow> json option" where
  "dict_get (JDict kvs) k = map_of kvs k"
| "dict_get _ k = None"

text \<open>
  A coroutine either returns a value, raises an exception (named by its class), or is
  cancelled at a suspension point.
\<close>

datatype 'a outcome = Returned 'a | Raised string | Cancelled

section \<open>The persisted entity\<close>

text \<open>
  Modelled from the spec: the declaration of \<open>TodoItem\<close> (AgentForge/database/models.py) is
  not among the sources. The spec gives its columns: id (a unique string), agent_id,
  title, description. The column \<open>id\<close> is named \<open>item_id\<close> here, as \<open>id\<close> is the identity
  function of HOL.
\<close>

record TodoItem =
  item_id :: string
  agent_id :: string
  title :: string
  description :: string

text \<open>
  A session is the table of rows as the running tool sees it, in insertion order.
  \<open>session.add\<close> appends a row, \<open>session.delete\<close> removes the row object it is given,
  an attribute assignment on a row object replaces that row, \<open>query(...).filter_by(...)\<close>
  keeps the rows that match, \<open>.first()\<close> is the first of them or \<open>None\<close>, \<open>.all()\<close> is all
  of them.
\<close>

type_synonym session = "TodoItem list"

definition session_add :: "TodoItem \<Rightarrow> session \<Rightarrow> session" where
  "session_add todo s = s @ [todo]"

definition session_delete :: "TodoItem \<Rightarrow> session \<Rightarrow> session" where
  "session_delete todo s = remove1 todo s"

fun session_assign :: "TodoItem \<Rightarrow> TodoItem \<Rightarrow> session \<Rightarrow> session" where
  "session_assign todo todo' [] = []"
| "session_assign todo todo' (t # ts) =
     (if t = todo then todo' # ts else t # session_assign todo todo' ts)"

definition filter_by_id_agent :: "string \<Rightarrow> string \<Rightarrow> session \<Rightarrow> TodoItem list" where
  "filter_by_id_agent tid aid s = filter (\<lambda>t. item_id t = tid \<and> agent_id t = aid) s"

definition filter_by_agent :: "string \<Rightarrow> session \<Rightarrow> TodoItem list" where
  "filter_by_agent aid s = filter (\<lambda>t. agent_id t = aid) s"

fun first :: "'a list \<Rightarrow> 'a option" where
  "first [] = None"
| "first (x # xs) = Some x"

text \<open>The spec's invariant of the table: the id is unique.\<close>

definition unique_ids :: "session \<Rightarrow> bool" where
  "unique_ids s = distinct (map item_id s)"

section \<open>uuid.uuid4().hex\<close>

text \<open>
  \<open>uuid.uuid4()\<close> reads 16 random bytes (here the argument, as the big-endian integer
  they form), then sets the variant and version bits; \<open>.hex\<close> formats the 128-bit integer
  with \<open>'%032x'\<close>: 32 lowercase hexadecimal digits, the most significant first.
\<close>

definition uuid4 :: "128 word \<Rightarrow> 128 word" where
  "uuid4 r =
     (let i1 = r AND NOT (push_bit 48 0xc000);
          i2 = i1 OR push_bit 48 0x8000;
          i3 = i2 AND NOT (push_bit 64 0xf000)
      in i3 OR push_bit 76 4)"

definition hexdigits :: string where
  "hexdigits = ''0123456789abcdef''"

definition uuid_hex :: "128 word \<Rightarrow> string" where
  "uuid_hex u = map (\<lambda>k. hexdigits ! unat (drop_bit (4 * (31 - k)) u AND 0xf)) [0..<32]"

section \<open>The transactional scope\<close>

text \<open>
  What is persisted, and the log of what the transactional scopes did so far: a unit of
  work is acquired, the wrapped \<open>execute\<close> has run, the commit is called, the unit of work is
  rolled back, the unit of work is released.
\<close>

datatype scope_event = Acquire | Execute | Commit | Rollback | Release

record database =
  rows :: "TodoItem list"
  events :: "scope_event list"

text \<open>
  What the surroundings do to one scope. The caller may cancel the task at each of the
  scope's own suspension points: the acquisition, the commit and the release. The
  persistence collaborator may fail a commit.
\<close>

datatype commit_fault = NoCommitFault | CommitFails | CommitCancelled

record faults =
  cancel_acquire :: bool
  on_commit :: commit_fault
  cancel_release :: bool

definition undisturbed :: faults where
  "undisturbed = \<lparr>cancel_acquire = False, on_commit = NoCommitFault, cancel_release = False\<rparr>"

text \<open>
  Modelled from the spec: the id of a persisted entity is unique, and the commit is where
  the store refuses a second row with an id. A commit breaks the uniqueness when the
  session holds an id more than once and more often than the persisted rows do, as after
  adding a row whose id is taken; replacing or removing rows never does.
\<close>

definition breaks_unique_id :: "TodoItem list \<Rightarrow> session \<Rightarrow> bool" where
  "breaks_unique_id persisted s =
     list_ex (\<lambda>i. 1 < count_list (map item_id s) i \<and>
                    count_list (map item_id persisted) i < count_list (map item_id s) i)
             (map item_id s)"

datatype commit_result = Committed | CommitFailed | CommitInterrupted

text \<open>
  Modelled from the spec: the commit of a unit of work. It is interrupted when the task is
  cancelled during it, fails when the collaborator fails it or the rows would break the
  unique id, and persists the rows otherwise.
\<close>

definition commit :: "faults \<Rightarrow> TodoItem list \<Rightarrow> session \<Rightarrow> commit_result" where
  "commit f persisted s =
     (case on_commit f of
        CommitCancelled \<Rightarrow> CommitInterrupted
      | CommitFails \<Rightarrow> CommitFailed
      | NoCommitFault \<Rightarrow> if breaks_unique_id persisted s then CommitFailed else Committed)"

text \<open>
  Modelled from the spec: the decorator \<open>with_session\<close> (AgentForge/database/db.py) is not
  among the sources. The spec's contract: acquire a unit of work before the invocation,
  inject it as an extra argument, commit it if \<open>execute\<close> returns normally, roll it back if
  \<open>execute\<close> raises, and release it on every exit path; a commit that fails triggers a
  rollback and surfaces as a failure; a cancellation at a suspension point rolls back and
  releases what was acquired before it propagates. The unit of work starts from the
  persisted rows; a commit that succeeds persists its rows, a rollback drops them. A
  cancellation during the acquisition leaves nothing acquired, and \<open>execute\<close> does not run.
\<close>

definition with_session ::
  "faults \<Rightarrow> (session \<Rightarrow> 'a outcome \<times> session) \<Rightarrow> database \<Rightarrow> 'a outcome \<times> database" where
  "with_session f execute db =
     (if cancel_acquire f then (Cancelled, db)
      else
        let db1 = db\<lparr>events := events db @ [Acquire]\<rparr>;
            (out, s') = execute (rows db1);
            db2 = db1\<lparr>events := events db1 @ [Execute]\<rparr>;
            (out', db3) =
              (case out of
                 Returned v \<Rightarrow>
                   (case commit f (rows db2) s' of
                      Committed \<Rightarrow>
                        (Returned v, db2\<lparr>rows := s', events := events db2 @ [Commit]\<rparr>)
                    | CommitFailed \<Rightarrow>
                        (Raised ''PersistenceFailure'',
                         db2\<lparr>events := events db2 @ [Commit, Rollback]\<rparr>)
                    | CommitInterrupted \<Rightarrow>
                        (Cancelled, db2\<lparr>events := events db2 @ [Commit, Rollback]\<rparr>))
               | Raised e \<Rightarrow> (Raised e, db2\<lparr>events := events db2 @ [Rollback]\<rparr>)
               | Cancelled \<Rightarrow> (Cancelled, db2\<lparr>events := events db2 @ [Rollback]\<rparr>));
            db4 = db3\<lparr>events := events db3 @ [Release]\<rparr>
        in (if cancel_release f then Cancelled else out', db4))"

section \<open>The leaf tools\<close>

text \<open>
  Each \<open>execute\<close> takes the id of the parent agent (\<open>self.parent_agent.get_id()\<close>), its
  declared arguments and the injected session. \<open>CreateTodoTool\<close> also takes the random
  bytes that \<open>uuid.uuid4()\<close> draws. Logging is left out.
\<close>

definition CreateTodoTool_execute ::
  "string \<Rightarrow> 128 word \<Rightarrow> string \<Rightarrow> string \<Rightarrow> session \<Rightarrow> json outcome \<times> session" where
  "CreateTodoTool_execute aid r ttl dsc s =
     (let todo_id = ''todo_'' @ take 8 (uuid_hex (uuid4 r));
          todo = \<lparr>item_id = todo_id, agent_id = aid, title = ttl, description = dsc\<rparr>;
          s' = session_add todo s
      in (Returned (JDict [(''id'', JStr (item_id todo)),
                           (''title'', JStr (title todo)),
                           (''description'', JStr (description todo))]), s'))"

definition UpdateTodoTool_execute ::
  "string \<Rightarrow> string \<Rightarrow> string \<Rightarrow> string \<Rightarrow> session \<Rightarrow> json outcome \<times> session" where
  "UpdateTodoTool_execute aid tid ttl dsc s =
     (case first (filter_by_id_agent tid aid s) of
        Some todo \<Rightarrow>
          (let todo' = todo\<lparr>title := ttl, description := dsc\<rparr>;
               s' = session_assign todo todo' s
           in (Returned (JDict [(''success'', JBool True),
                                (''message'', JStr (''Todo '' @ [CHR 0x27] @ title todo' @ [CHR 0x27] @ '' updated'')),
                                (''todo'', JDict [(''id'', JStr (item_id todo')),
                                                  (''title'', JStr (title todo')),
                                                  (''description'', JStr (description todo'))])]), s'))
      | None \<Rightarrow>
          (Returned (JDict [(''success'', JBool False),
                            (''message'', JStr (''No todo found with ID '' @ tid))]), s))"

definition DeleteTodoTool_execute ::
  "string \<Rightarrow> string \<Rightarrow> session \<Rightarrow> json outcome \<times> session" where
  "DeleteTodoTool_execute aid tid s =
     (case first (filter_by_id_agent tid aid s) of
        Some todo \<Rightarrow>
          (let ttl = title todo;
               s' = session_delete todo s
           in (Returned (JDict [(''success'', JBool True),
                                (''message'', JStr (''Todo '' @ [CHR 0x27] @ ttl @ [CHR 0x27] @ '' deleted''))]), s'))
      | None \<Rightarrow>
          (Returned (JDict [(''success'', JBool False),
                            (''message'', JStr (''No todo found with ID '' @ tid))]), s))"

definition GetAllTodosTool_execute :: "string \<Rightarrow> session \<Rightarrow> json outcome \<times> session" where
  "GetAllTodosTool_execute aid s =
     (let todos = filter_by_agent aid s
      in (Returned (JList (map (\<lambda>t. JDict [(''id'', JStr (item_id t)),
                                            (''title'', JStr (title t)),
                                            (''description'', JStr (description t))]) todos)), s))"

text \<open>
  The tools as the agent calls them: \<open>execute\<close> under its decorator, with nothing cancelled
  and no failure of the persistence collaborator.
\<close>

definition create_todo :: "string \<Rightarrow> 128 word \<Rightarrow> string \<Rightarrow> string \<Rightarrow> database \<Rightarrow> json outcome \<times> database" where
  "create_todo aid r ttl dsc = with_session undisturbed (CreateTodoTool_execute aid r ttl dsc)"

definition update_todo :: "string \<Rightarrow> string \<Rightarrow> string \<Rightarrow> string \<Rightarrow> database \<Rightarrow> json outcome \<times> database" where
  "update_todo aid tid ttl dsc = with_session undisturbed (UpdateTodoTool_execute aid tid ttl dsc)"

definition delete_todo :: "string \<Rightarrow> string \<Rightarrow> database \<Rightarrow> json outcome \<times> database" where
  "delete_todo aid tid = with_session undisturbed (DeleteTodoTool_execute aid tid)"

definition get_all_todos :: "string \<Rightarrow> database \<Rightarrow> json outcome \<times> database" where
  "get_all_todos aid = with_session undisturbed (GetAllTodosTool_execute aid)"

section \<open>The nested orchestrator tool\<close>

definition join :: "string \<Rightarrow> string list \<Rightarrow> string" where
  "join sep ls = concat (case ls of [] \<Rightarrow> [] | l # ls' \<Rightarrow> l # map (\<lambda>x. sep @ x) ls')"

text \<open>The system prompt of the TODO agent, line by line.\<close>

definition WHO_AM_I :: string where
  "WHO_AM_I = join [CHR 0x0A]
     [''You are a TODO list management assistant. Always respond in User language!'',
      [],
      ''For creating a todo:'',
      ''1. Extract title and description from user request'',
      ''2. Use create_todo tool with extracted data'',
      [],
      ''For updating a todo:'',
      ''1. First use get_all_todos to get list of all todos'',
      ''2. Find todo whose title best matches user request'',
      ''3. Use update_todo with ID of found todo and new data'',
      [],
      ''For deleting a todo:'',
      ''1. First use get_all_todos to get list of all todos'',
      ''2. Find todo whose title best matches user request'',
      ''3. Use delete_todo with ID of found todo'',
      [],
      ''For viewing todos:'',
      ''1. Use get_all_todos'',
      ''2. Format todo list for easy reading'']"

datatype leaf_tool = CreateTodoTool | UpdateTodoTool | DeleteTodoTool | GetAllTodosTool


datatype role = User | Assistant | Tool

record Message =
  role :: role
  content :: json

text \<open>
  Modelled from the spec: the classes \<open>MessageStorage\<close> (AgentForge/core/message_storage.py)
  and \<open>Agent\<close> (AgentForge/core/agent.py) are not among the sources; only their constructor
  calls are. A message storage is an ordered sequence of messages with a maximum size; a
  new one is empty. \<open>MessageStorage()\<close> takes the default maximum size, which is the
  argument here. An agent holds what its constructor is given; \<open>get_id()\<close> reads the
  \<open>agent_id\<close> it was built with, and names that field here.
\<close>

record MessageStorage =
  max_size :: nat
  messages :: "Message list"

definition MessageStorage_new :: "nat \<Rightarrow> MessageStorage" where
  "MessageStorage_new n = \<lparr>max_size = n, messages = []\<rparr>"

text \<open>
  Modelled from the spec: \<open>append\<close> of the missing class \<open>MessageStorage\<close>. The spec's words:
  the length is at most the maximum size; eviction triggers on append once the size
  exceeds the maximum, removes from the oldest end, and keeps a tool-call and its
  tool-result together. The spec does not say how a tool-result names its tool-call:
  \<open>call_of\<close>, an argument, gives the invocation a message belongs to, if any; the tool-call
  is the assistant message of that invocation and a tool-result is a tool message of it.
\<close>

definition is_tool_call :: "(Message \<Rightarrow> 'i option) \<Rightarrow> 'i \<Rightarrow> Message \<Rightarrow> bool" where
  "is_tool_call call_of i m = (role m = Assistant \<and> call_of m = Some i)"

definition is_tool_result :: "(Message \<Rightarrow> 'i option) \<Rightarrow> 'i \<Rightarrow> Message \<Rightarrow> bool" where
  "is_tool_result call_of i m = (role m = Tool \<and> call_of m = Some i)"

text \<open>Two messages are paired when they are tool-call or tool-result of one invocation.\<close>

definition same_invocation :: "(Message \<Rightarrow> 'i option) \<Rightarrow> Message \<Rightarrow> Message \<Rightarrow> bool" where
  "same_invocation call_of m x =
     (case call_of m of
        None \<Rightarrow> False
      | Some i \<Rightarrow> (is_tool_call call_of i m \<or> is_tool_result call_of i m) \<and>
                  (is_tool_call call_of i x \<or> is_tool_result call_of i x))"

text \<open>
  Modelled from the spec: the eviction of \<open>MessageStorage\<close>. Nothing is evicted while the
  length is at most the maximum size. Above it the oldest message is evicted, and with
  it the messages it is paired with, until the length is at most the maximum size.
\<close>

fun evict :: "(Message \<Rightarrow> 'i option) \<Rightarrow> nat \<Rightarrow> Message list \<Rightarrow> Message list" where
  "evict call_of n [] = []"
| "evict call_of n (m # ms) =
     (if length (m # ms) \<le> n then m # ms
      else evict call_of n (filter (\<lambda>x. \<not> same_invocation call_of m x) ms))"

text \<open>Modelled from the spec: \<open>MessageStorage.append\<close>, the append followed by the eviction.\<close>

definition MessageStorage_append ::
  "(Message \<Rightarrow> 'i option) \<Rightarrow> Message \<Rightarrow> MessageStorage \<Rightarrow> MessageStorage" where
  "MessageStorage_append call_of m h =
     h\<lparr>messages := evict call_of (max_size h) (messages h @ [m])\<rparr>"

text \<open>A sequence of appends, the oldest first.\<close>

definition appends ::
  "(Message \<Rightarrow> 'i option) \<Rightarrow> Message list \<Rightarrow> MessageStorage \<Rightarrow> MessageStorage" where
  "appends call_of ms h = foldl (\<lambda>h m. MessageStorage_append call_of m h) h ms"

record 'c Agent =
  client :: 'c
  get_id :: string
  message_storage :: MessageStorage
  who_am_i :: string
  tools :: "leaf_tool list"




section \<open>The orchestrator loop\<close>

text \<open>
  Modelled from the spec: \<open>Agent.run\<close> (AgentForge/core/agent.py) is not among the sources.
  The spec gives the state machine of one request: from \<open>AwaitingInput\<close> the request is
  appended as a user message and the model is queried; a final text is appended as an
  assistant message and ends the cycle in \<open>Responding\<close>; tool-invocation requests are
  dispatched in the order received, each result appended as a tool message, and the model
  is queried again; the cycle of querying and dispatching is bounded by a fixed maximum
  number of rounds, and exceeding it ends in \<open>Failed\<close> with \<open>ToolLoopExceeded\<close>; an
  unreachable capability is retried a bounded number of times and then ends in \<open>Failed\<close>
  with \<open>CapabilityUnavailable\<close>.

  The language model is an opaque capability: a function of the number of the query (so
  that it may answer the same history differently), the system prompt, the catalog and
  the messages. Tool dispatch is a function on the state of the world outside the agent.
  The two bounds and the history's \<open>append\<close> are parameters as well.
\<close>

datatype agent_state = AwaitingInput | QueryingModel | DispatchingTools | Responding | Failed

datatype condition = ToolLoopExceeded | CapabilityUnavailable

datatype response = FinalText string | ToolCalls "(string \<times> json) list" | Unreachable

datatype run_result = Answer string | Failure condition

record 'w runtime =
  max_rounds :: nat
  max_attempts :: nat
  capability :: "nat \<Rightarrow> string \<Rightarrow> leaf_tool list \<Rightarrow> Message list \<Rightarrow> response"
  dispatch :: "string \<times> json \<Rightarrow> 'w \<Rightarrow> json \<times> 'w"
  append_message :: "Message \<Rightarrow> MessageStorage \<Rightarrow> MessageStorage"

record 'w run_state =
  state :: agent_state
  rounds :: nat
  attempts :: nat
  queries :: nat
  history :: MessageStorage
  world :: 'w
  pending :: "(string \<times> json) list"
  result :: "run_result option"

text \<open>
  Modelled from the spec: the dispatch of the tool-invocation requests of one response,
  in the order received, each result appended to the history as a tool message.
\<close>

fun dispatch_tools ::
  "'w runtime \<Rightarrow> (string \<times> json) list \<Rightarrow> MessageStorage \<Rightarrow> 'w \<Rightarrow> MessageStorage \<times> 'w" where
  "dispatch_tools rt [] h w = (h, w)"
| "dispatch_tools rt (c # cs) h w =
     (let (r, w') = dispatch rt c w
      in dispatch_tools rt cs (append_message rt \<lparr>role = Tool, content = r\<rparr> h) w')"

text \<open>Modelled from the spec: one transition of the state machine of \<open>Agent.run\<close>.\<close>

definition step :: "'w runtime \<Rightarrow> 'c Agent \<Rightarrow> 'w run_state \<Rightarrow> 'w run_state" where
  "step rt a s =
     (case state s of
        AwaitingInput \<Rightarrow> s\<lparr>state := QueryingModel\<rparr>
      | QueryingModel \<Rightarrow>
          (let s1 = s\<lparr>queries := queries s + 1\<rparr>
           in case capability rt (queries s) (who_am_i a) (tools a) (messages (history s)) of
                FinalText x \<Rightarrow>
                  s1\<lparr>state := Responding,
                     history := append_message rt \<lparr>role = Assistant, content = JStr x\<rparr> (history s),
                     result := Some (Answer x)\<rparr>
              | ToolCalls cs \<Rightarrow>
                  (if rounds s < max_rounds rt
                   then s1\<lparr>state := DispatchingTools, rounds := rounds s + 1, attempts := 0,
                           pending := cs\<rparr>
                   else s1\<lparr>state := Failed, result := Some (Failure ToolLoopExceeded)\<rparr>)
              | Unreachable \<Rightarrow>
                  (if attempts s < max_attempts rt
                   then s1\<lparr>attempts := attempts s + 1\<rparr>
                   else s1\<lparr>state := Failed, result := Some (Failure CapabilityUnavailable)\<rparr>))
      | DispatchingTools \<Rightarrow>
          (let (h, w) = dispatch_tools rt (pending s) (history s) (world s)
           in s\<lparr>state := QueryingModel, history := h, world := w, pending := []\<rparr>)
      | Responding \<Rightarrow> s
      | Failed \<Rightarrow> s)"

fun terminal :: "agent_state \<Rightarrow> bool" where
  "terminal Responding = True"
| "terminal Failed = True"
| "terminal _ = False"

text \<open>The position of a state within one round, for the termination order of the loop.\<close>

fun rank :: "agent_state \<Rightarrow> nat" where
  "rank AwaitingInput = 3"
| "rank DispatchingTools = 2"
| "rank QueryingModel = 1"
| "rank Responding = 0"
| "rank Failed = 0"

text \<open>
  Modelled from the spec: the loop of \<open>Agent.run\<close>, one transition after another until a
  terminal state.
\<close>

function drive :: "'w runtime \<Rightarrow> 'c Agent \<Rightarrow> 'w run_state \<Rightarrow> 'w run_state" where
  "drive rt a s = (if terminal (state s) then s else drive rt a (step rt a s))"
  by pat_completeness auto
termination
  apply (relation "measures [\<lambda>(rt, a, s). max_rounds rt - rounds s,
                             \<lambda>(rt, a, s). rank (state s),
                             \<lambda>(rt, a, s). max_attempts rt - attempts s]")
   apply simp
  apply (auto simp: step_def Let_def split: agent_state.splits response.splits prod.splits if_splits)
  done

declare drive.simps [simp del]

text \<open>
  Modelled from the spec: \<open>Agent.run\<close>. The request is appended as a user message, the
  state machine is driven to a terminal state, and the answer or the failure is returned
  with the agent, whose history is the one the run leaves, and the world.
\<close>

definition initial_state :: "'w runtime \<Rightarrow> 'c Agent \<Rightarrow> string \<Rightarrow> 'w \<Rightarrow> 'w run_state" where
  "initial_state rt a request w =
     \<lparr>state = AwaitingInput, rounds = 0, attempts = 0, queries = 0,
      history = append_message rt \<lparr>role = User, content = JStr request\<rparr> (message_storage a),
      world = w, pending = [], result = None\<rparr>"

definition Agent_run ::
  "'w runtime \<Rightarrow> 'c Agent \<Rightarrow> string \<Rightarrow> 'w \<Rightarrow> run_result option \<times> 'c Agent \<times> 'w" where
  "Agent_run rt a request w =
     (let s = drive rt a (initial_state rt a request w)
      in (result s, a\<lparr>message_storage := history s\<rparr>, world s))"

section \<open>Rows and queries\<close>

lemma first_filter_None: "first (filter P s) = None \<longleftrightarrow> (\<forall>t\<in>set s. \<not> P t)"
  by (induction s) auto

lemma first_filter_unique:
  "unique_ids s \<Longrightarrow> t \<in> set s \<Longrightarrow> first (filter_by_id_agent (item_id t) (agent_id t) s) = Some t"
  unfolding unique_ids_def filter_by_id_agent_def
  by (induction s) (auto simp: image_iff)

lemma filter_remove1_unique:
  "unique_ids s \<Longrightarrow> t \<in> set s \<Longrightarrow> filter_by_id_agent (item_id t) (agent_id t) (remove1 t s) = []"
  unfolding unique_ids_def filter_by_id_agent_def
  by (induction s) (auto simp: image_iff filter_empty_conv)

lemma unique_ids_distinct: "unique_ids s \<Longrightarrow> distinct s"
  unfolding unique_ids_def by (rule distinct_map [THEN iffD1, THEN conjunct1])

lemma first_other_agent:
  assumes "unique_ids s" "other \<in> set s" "agent_id other \<noteq> aid"
  shows "first (filter_by_id_agent (item_id other) aid s) = None"
proof -
  have "\<forall>t\<in>set s. \<not> (item_id t = item_id other \<and> agent_id t = aid)"
  proof
    fix t assume t: "t \<in> set s"
    show "\<not> (item_id t = item_id other \<and> agent_id t = aid)"
    proof
      assume h: "item_id t = item_id other \<and> agent_id t = aid"
      from assms(1) have "inj_on item_id (set s)"
        unfolding unique_ids_def by (simp add: distinct_map)
      with t assms(2) h have "t = other" by (auto dest: inj_onD)
      with h assms(3) show False by simp
    qed
  qed
  then show ?thesis
    unfolding filter_by_id_agent_def by (simp add: first_filter_None)
qed

lemma first_filter_Some: "first (filter P s) = Some t \<Longrightarrow> t \<in> set s \<and> P t"
  by (induction s) (auto split: if_splits)

lemma filter_by_agent_assign:
  "agent_id todo = aid \<Longrightarrow> agent_id todo' = aid \<Longrightarrow> aid' \<noteq> aid \<Longrightarrow>
   filter_by_agent aid' (session_assign todo todo' s) = filter_by_agent aid' s"
  unfolding filter_by_agent_def by (induction s) auto

lemma filter_by_agent_remove1:
  "agent_id todo \<noteq> aid' \<Longrightarrow> filter_by_agent aid' (remove1 todo s) = filter_by_agent aid' s"
  unfolding filter_by_agent_def by (induction s) auto

lemma unique_ids_assign:
  "unique_ids s \<Longrightarrow> item_id todo' = item_id todo \<Longrightarrow> unique_ids (session_assign todo todo' s)"
proof (induction s)
  case Nil
  then show ?case by simp
next
  case (Cons t ts)
  have sub: "item_id ` set (session_assign todo todo' ts) \<subseteq> item_id ` set ts" if "item_id todo' = item_id todo" for ts
    using that by (induction ts) auto
  from Cons show ?case
    using sub [of ts] by (auto simp: unique_ids_def)
qed

lemma unique_ids_remove1: "unique_ids s \<Longrightarrow> unique_ids (remove1 todo s)"
proof (induction s)
  case Nil
  then show ?case by simp
next
  case (Cons t ts)
  have "item_id ` set (remove1 todo ts) \<subseteq> item_id ` set ts"
    using set_remove1_subset [of todo ts] by blast
  with Cons show ?case
    by (auto simp: unique_ids_def)
qed

lemma unique_ids_add:
  "unique_ids s \<Longrightarrow> item_id todo \<notin> item_id ` set s \<Longrightarrow> unique_ids (session_add todo s)"
  by (simp add: unique_ids_def session_add_def)

section \<open>The commit and the unique id\<close>

lemma breaks_unique_id_same: "\<not> breaks_unique_id s s"
  by (simp add: breaks_unique_id_def list_ex_iff)

lemma map_item_id_assign:
  "item_id todo' = item_id todo \<Longrightarrow> map item_id (session_assign todo todo' s) = map item_id s"
  by (induction s) auto

lemma breaks_unique_id_assign:
  "item_id todo' = item_id todo \<Longrightarrow> \<not> breaks_unique_id s (session_assign todo todo' s)"
  by (simp add: breaks_unique_id_def map_item_id_assign list_ex_iff)

lemma count_list_remove1_le: "count_list (map f (remove1 t s)) i \<le> count_list (map f s) i"
  by (induction s) auto

lemma breaks_unique_id_remove1: "\<not> breaks_unique_id s (remove1 t s)"
  using count_list_remove1_le [of item_id t s]
  by (auto simp: breaks_unique_id_def list_ex_iff not_less)

lemma breaks_unique_id_add:
  "breaks_unique_id s (session_add t s) \<longleftrightarrow> item_id t \<in> set (map item_id s)"
proof -
  have "0 < count_list (map item_id s) (item_id t) \<longleftrightarrow> item_id t \<in> set (map item_id s)"
    using count_list_0_iff [of "map item_id s" "item_id t"] by auto
  then show ?thesis
    by (auto simp: breaks_unique_id_def session_add_def list_ex_iff)
qed

lemma with_session_commits:
  assumes "execute (rows db) = (Returned v, s')" "\<not> breaks_unique_id (rows db) s'"
  shows "with_session undisturbed execute db =
           (Returned v, db\<lparr>rows := s', events := events db @ [Acquire, Execute, Commit, Release]\<rparr>)"
  using assms by (simp add: with_session_def undisturbed_def commit_def)

lemma with_session_refused:
  assumes "execute (rows db) = (Returned v, s')" "breaks_unique_id (rows db) s'"
  shows "with_session undisturbed execute db =
           (Raised ''PersistenceFailure'',
            db\<lparr>events := events db @ [Acquire, Execute, Commit, Rollback, Release]\<rparr>)"
  using assms by (simp add: with_session_def undisturbed_def commit_def)

lemma distinct_count_list: "distinct xs \<longleftrightarrow> (\<forall>x\<in>set xs. count_list xs x \<le> 1)"
proof (induction xs)
  case Nil
  show ?case by simp
next
  case (Cons a xs)
  have "count_list xs a = 0 \<longleftrightarrow> a \<notin> set xs" by (rule count_list_0_iff)
  with Cons show ?case by (auto simp: le_Suc_eq)
qed

text \<open>A commit that is not refused keeps the ids unique.\<close>

lemma unique_ids_kept:
  assumes "unique_ids p" "\<not> breaks_unique_id p s"
  shows "unique_ids s"
proof -
  have "count_list (map item_id s) i \<le> 1" if "i \<in> set (map item_id s)" for i
  proof (rule ccontr)
    assume "\<not> count_list (map item_id s) i \<le> 1"
    then have more: "1 < count_list (map item_id s) i" by simp
    with assms(2) that have "count_list (map item_id s) i \<le> count_list (map item_id p) i"
      by (auto simp: breaks_unique_id_def list_ex_iff not_less)
    with more have "1 < count_list (map item_id p) i" by simp
    moreover from this have "i \<in> set (map item_id p)"
      using count_list_0_iff [of "map item_id p" i] by auto
    ultimately show False
      using assms(1) by (auto simp: unique_ids_def distinct_count_list)
  qed
  then show ?thesis by (simp add: unique_ids_def distinct_count_list)
qed

lemma with_session_unique_ids:
  "unique_ids (rows db) \<Longrightarrow> unique_ids (rows (snd (with_session f execute db)))"
  by (cases "execute (rows db)"; cases "fst (execute (rows db))";
      cases "commit f (rows db) (snd (execute (rows db)))")
     (auto simp: with_session_def commit_def unique_ids_kept split: commit_fault.splits if_splits)

section \<open>What each tool computes\<close>

lemma create_todo_fresh:
  "''todo_'' @ take 8 (uuid_hex (uuid4 r)) \<notin> set (map item_id (rows db)) \<Longrightarrow>
   create_todo aid r ttl dsc db =
     (Returned (JDict [(''id'', JStr (''todo_'' @ take 8 (uuid_hex (uuid4 r)))),
                       (''title'', JStr ttl), (''description'', JStr dsc)]),
      db\<lparr>rows := rows db @ [\<lparr>item_id = ''todo_'' @ take 8 (uuid_hex (uuid4 r)), agent_id = aid,
                               title = ttl, description = dsc\<rparr>],
         events := events db @ [Acquire, Execute, Commit, Release]\<rparr>)"
  unfolding create_todo_def
  by (subst with_session_commits [where s' = "session_add \<lparr>item_id = ''todo_'' @ take 8 (uuid_hex (uuid4 r)),
        agent_id = aid, title = ttl, description = dsc\<rparr> (rows db)"])
     (simp_all add: CreateTodoTool_execute_def Let_def breaks_unique_id_add, simp add: session_add_def)

lemma create_todo_taken:
  "''todo_'' @ take 8 (uuid_hex (uuid4 r)) \<in> set (map item_id (rows db)) \<Longrightarrow>
   create_todo aid r ttl dsc db =
     (Raised ''PersistenceFailure'',
      db\<lparr>events := events db @ [Acquire, Execute, Commit, Rollback, Release]\<rparr>)"
  unfolding create_todo_def
  by (rule with_session_refused [where s' = "session_add \<lparr>item_id = ''todo_'' @ take 8 (uuid_hex (uuid4 r)),
        agent_id = aid, title = ttl, description = dsc\<rparr> (rows db)"])
     (simp_all add: CreateTodoTool_execute_def Let_def breaks_unique_id_add)

lemma get_all_todos_eq:
  "get_all_todos aid db =
     (Returned (JList (map (\<lambda>t. JDict [(''id'', JStr (item_id t)), (''title'', JStr (title t)),
                                        (''description'', JStr (description t))])
                         (filter (\<lambda>t. agent_id t = aid) (rows db)))),
      db\<lparr>events := events db @ [Acquire, Execute, Commit, Release]\<rparr>)"
  unfolding get_all_todos_def
  by (subst with_session_commits [where s' = "rows db"])
     (simp_all add: GetAllTodosTool_execute_def filter_by_agent_def Let_def breaks_unique_id_same)

lemma update_todo_None:
  "first (filter_by_id_agent tid aid (rows db)) = None \<Longrightarrow>
   update_todo aid tid ttl dsc db =
     (Returned (JDict [(''success'', JBool False),
                       (''message'', JStr (''No todo found with ID '' @ tid))]),
      db\<lparr>events := events db @ [Acquire, Execute, Commit, Release]\<rparr>)"
  unfolding update_todo_def
  by (subst with_session_commits [where s' = "rows db"])
     (simp_all add: UpdateTodoTool_execute_def breaks_unique_id_same)

lemma update_todo_Some:
  "first (filter_by_id_agent tid aid (rows db)) = Some todo \<Longrightarrow>
   update_todo aid tid ttl dsc db =
     (Returned (JDict [(''success'', JBool True),
                       (''message'', JStr (''Todo '' @ [CHR 0x27] @ ttl @ [CHR 0x27] @ '' updated'')),
                       (''todo'', JDict [(''id'', JStr (item_id todo)), (''title'', JStr ttl),
                                         (''description'', JStr dsc)])]),
      db\<lparr>rows := session_assign todo (todo\<lparr>title := ttl, description := dsc\<rparr>) (rows db),
         events := events db @ [Acquire, Execute, Commit, Release]\<rparr>)"
  unfolding update_todo_def
  by (subst with_session_commits
        [where s' = "session_assign todo (todo\<lparr>title := ttl, description := dsc\<rparr>) (rows db)"])
     (simp_all add: UpdateTodoTool_execute_def breaks_unique_id_assign)

lemma delete_todo_None:
  "first (filter_by_id_agent tid aid (rows db)) = None \<Longrightarrow>
   delete_todo aid tid db =
     (Returned (JDict [(''success'', JBool False),
                       (''message'', JStr (''No todo found with ID '' @ tid))]),
      db\<lparr>events := events db @ [Acquire, Execute, Commit, Release]\<rparr>)"
  unfolding delete_todo_def
  by (subst with_session_commits [where s' = "rows db"])
     (simp_all add: DeleteTodoTool_execute_def breaks_unique_id_same)

lemma delete_todo_Some:
  "first (filter_by_id_agent tid aid (rows db)) = Some todo \<Longrightarrow>
   delete_todo aid tid db =
     (Returned (JDict [(''success'', JBool True),
                       (''message'', JStr (''Todo '' @ [CHR 0x27] @ title todo @ [CHR 0x27] @ '' deleted''))]),
      db\<lparr>rows := remove1 todo (rows db),
         events := events db @ [Acquire, Execute, Commit, Release]\<rparr>)"
  unfolding delete_todo_def
  by (subst with_session_commits [where s' = "remove1 todo (rows db)"])
     (simp_all add: DeleteTodoTool_execute_def session_delete_def breaks_unique_id_remove1)

section \<open>Writes stay within the agent\<close>

lemma create_todo_other_agent:
  "aid' \<noteq> aid \<Longrightarrow>
   filter_by_agent aid' (rows (snd (create_todo aid r ttl dsc db))) = filter_by_agent aid' (rows db)"
  by (cases "''todo_'' @ take 8 (uuid_hex (uuid4 r)) \<in> set (map item_id (rows db))")
     (simp_all add: create_todo_fresh create_todo_taken filter_by_agent_def)

lemma update_todo_other_agent:
  assumes "aid' \<noteq> aid"
  shows "filter_by_agent aid' (rows (snd (update_todo aid tid ttl dsc db))) =
         filter_by_agent aid' (rows db)"
proof (cases "first (filter_by_id_agent tid aid (rows db))")
  case None
  then show ?thesis by (simp add: update_todo_None)
next
  case (Some todo)
  then have "agent_id todo = aid"
    unfolding filter_by_id_agent_def by (auto dest: first_filter_Some)
  with assms show ?thesis
    by (simp add: update_todo_Some [OF Some] filter_by_agent_assign)
qed

lemma delete_todo_other_agent:
  assumes "aid' \<noteq> aid"
  shows "filter_by_agent aid' (rows (snd (delete_todo aid tid db))) =
         filter_by_agent aid' (rows db)"
proof (cases "first (filter_by_id_agent tid aid (rows db))")
  case None
  then show ?thesis by (simp add: delete_todo_None)
next
  case (Some todo)
  then have "agent_id todo = aid"
    unfolding filter_by_id_agent_def by (auto dest: first_filter_Some)
  with assms show ?thesis
    by (simp add: delete_todo_Some [OF Some] filter_by_agent_remove1)
qed

section \<open>Scoping by agent id\<close>

text \<open>
  C1. Persisted todo entities are scoped by \<open>agent_id\<close>. Every entry that \<open>get_all_todos\<close>
  returns is the dictionary of a persisted row whose \<open>agent_id\<close> is the executing agent's,
  and the rows of other agents do not change its answer. On a table with unique ids,
  \<open>update_todo\<close> and \<open>delete_todo\<close> called with the id of a row owned by another agent return
  \<open>success: False\<close> and leave the rows as they were. On every table, whatever the
  arguments, \<open>create_todo\<close>, \<open>update_todo\<close> and \<open>delete_todo\<close> leave the rows of every other
  agent as they were.
\<close>

theorem todos_scoped_by_agent_id:
  "(\<exists>es. fst (get_all_todos aid db) = Returned (JList es) \<and>
      (\<forall>e\<in>set es. \<exists>t\<in>set (rows db). agent_id t = aid \<and>
          e = JDict [(''id'', JStr (item_id t)), (''title'', JStr (title t)),
                     (''description'', JStr (description t))])) \<and>
   fst (get_all_todos aid db) =
     fst (get_all_todos aid (db\<lparr>rows := filter_by_agent aid (rows db)\<rparr>)) \<and>
   rows (snd (get_all_todos aid db)) = rows db \<and>
   (unique_ids (rows db) \<and> other \<in> set (rows db) \<and> agent_id other \<noteq> aid \<longrightarrow>
      (\<exists>d. fst (update_todo aid (item_id other) ttl dsc db) = Returned d \<and>
            dict_get d ''success'' = Some (JBool False)) \<and>
      rows (snd (update_todo aid (item_id other) ttl dsc db)) = rows db \<and>
      (\<exists>d. fst (delete_todo aid (item_id other) db) = Returned d \<and>
            dict_get d ''success'' = Some (JBool False)) \<and>
      rows (snd (delete_todo aid (item_id other) db)) = rows db) \<and>
   (aid' \<noteq> aid \<longrightarrow>
      filter_by_agent aid' (rows (snd (create_todo aid r ttl dsc db))) =
        filter_by_agent aid' (rows db) \<and>
      filter_by_agent aid' (rows (snd (update_todo aid tid ttl dsc db))) =
        filter_by_agent aid' (rows db) \<and>
      filter_by_agent aid' (rows (snd (delete_todo aid tid db))) =
        filter_by_agent aid' (rows db))"
proof (intro conjI impI)
  show "\<exists>es. fst (get_all_todos aid db) = Returned (JList es) \<and>
      (\<forall>e\<in>set es. \<exists>t\<in>set (rows db). agent_id t = aid \<and>
          e = JDict [(''id'', JStr (item_id t)), (''title'', JStr (title t)),
                     (''description'', JStr (description t))])"
    by (auto simp: get_all_todos_eq)
  show "fst (get_all_todos aid db) =
     fst (get_all_todos aid (db\<lparr>rows := filter_by_agent aid (rows db)\<rparr>))"
    by (simp add: get_all_todos_eq filter_by_agent_def)
  show "rows (snd (get_all_todos aid db)) = rows db"
    by (simp add: get_all_todos_eq)
next
  assume h: "unique_ids (rows db) \<and> other \<in> set (rows db) \<and> agent_id other \<noteq> aid"
  then have none: "first (filter_by_id_agent (item_id other) aid (rows db)) = None"
    by (simp add: first_other_agent)
  show "\<exists>d. fst (update_todo aid (item_id other) ttl dsc db) = Returned d \<and>
            dict_get d ''success'' = Some (JBool False)"
    by (simp add: update_todo_None [OF none])
  show "rows (snd (update_todo aid (item_id other) ttl dsc db)) = rows db"
    by (simp add: update_todo_None [OF none])
  show "\<exists>d. fst (delete_todo aid (item_id other) db) = Returned d \<and>
            dict_get d ''success'' = Some (JBool False)"
    by (simp add: delete_todo_None [OF none])
  show "rows (snd (delete_todo aid (item_id other) db)) = rows db"
    by (simp add: delete_todo_None [OF none])
next
  assume "aid' \<noteq> aid"
  then show "filter_by_agent aid' (rows (snd (create_todo aid r ttl dsc db))) =
        filter_by_agent aid' (rows db)"
    and "filter_by_agent aid' (rows (snd (update_todo aid tid ttl dsc db))) =
        filter_by_agent aid' (rows db)"
    and "filter_by_agent aid' (rows (snd (delete_todo aid tid db))) =
        filter_by_agent aid' (rows db)"
    by (rule create_todo_other_agent, rule update_todo_other_agent, rule delete_todo_other_agent)
qed

text \<open>
  Two agents, one row each: agent 123 lists only its own row, and its update and delete
  of the other agent's row fail and change nothing.
\<close>

theorem todos_scoped_by_agent_id_witness:
  "unique_ids
     [\<lparr>item_id = ''todo_0a1b2c3d'', agent_id = ''123'', title = ''Buy milk'', description = ''2 litres''\<rparr>,
      \<lparr>item_id = ''todo_9f8e7d6c'', agent_id = ''456'', title = ''Call Bob'', description = ''at noon''\<rparr>] \<and>
   fst (get_all_todos ''123''
     \<lparr>rows = [\<lparr>item_id = ''todo_0a1b2c3d'', agent_id = ''123'', title = ''Buy milk'', description = ''2 litres''\<rparr>,
              \<lparr>item_id = ''todo_9f8e7d6c'', agent_id = ''456'', title = ''Call Bob'', description = ''at noon''\<rparr>],
      events = []\<rparr>) =
     Returned (JList [JDict [(''id'', JStr ''todo_0a1b2c3d''), (''title'', JStr ''Buy milk''),
                             (''description'', JStr ''2 litres'')]]) \<and>
   fst (update_todo ''123'' ''todo_9f8e7d6c'' ''Call Alice'' ''now''
     \<lparr>rows = [\<lparr>item_id = ''todo_0a1b2c3d'', agent_id = ''123'', title = ''Buy milk'', description = ''2 litres''\<rparr>,
              \<lparr>item_id = ''todo_9f8e7d6c'', agent_id = ''456'', title = ''Call Bob'', description = ''at noon''\<rparr>],
      events = []\<rparr>) =
     Returned (JDict [(''success'', JBool False),
                      (''message'', JStr ''No todo found with ID todo_9f8e7d6c'')]) \<and>
   rows (snd (update_todo ''123'' ''todo_9f8e7d6c'' ''Call Alice'' ''now''
     \<lparr>rows = [\<lparr>item_id = ''todo_0a1b2c3d'', agent_id = ''123'', title = ''Buy milk'', description = ''2 litres''\<rparr>,
              \<lparr>item_id = ''todo_9f8e7d6c'', agent_id = ''456'', title = ''Call Bob'', description = ''at noon''\<rparr>],
      events = []\<rparr>)) =
     [\<lparr>item_id = ''todo_0a1b2c3d'', agent_id = ''123'', title = ''Buy milk'', description = ''2 litres''\<rparr>,
      \<lparr>item_id = ''todo_9f8e7d6c'', agent_id = ''456'', title = ''Call Bob'', description = ''at noon''\<rparr>] \<and>
   rows (snd (delete_todo ''123'' ''todo_9f8e7d6c''
     \<lparr>rows = [\<lparr>item_id = ''todo_0a1b2c3d'', agent_id = ''123'', title = ''Buy milk'', description = ''2 litres''\<rparr>,
              \<lparr>item_id = ''todo_9f8e7d6c'', agent_id = ''456'', title = ''Call Bob'', description = ''at noon''\<rparr>],
      events = []\<rparr>)) =
     [\<lparr>item_id = ''todo_0a1b2c3d'', agent_id = ''123'', title = ''Buy milk'', description = ''2 litres''\<rparr>,
      \<lparr>item_id = ''todo_9f8e7d6c'', agent_id = ''456'', title = ''Call Bob'', description = ''at noon''\<rparr>]"
  using todos_scoped_by_agent_id [where aid = "''123''" and ttl = "''Call Alice''"
     and dsc = "''now''" and aid' = "''456''" and tid = "''todo_9f8e7d6c''" and r = 0 and db =
     "\<lparr>rows = [\<lparr>item_id = ''todo_0a1b2c3d'', agent_id = ''123'', title = ''Buy milk'', description = ''2 litres''\<rparr>,
              \<lparr>item_id = ''todo_9f8e7d6c'', agent_id = ''456'', title = ''Call Bob'', description = ''at noon''\<rparr>],
      events = []\<rparr>" and other =
     "\<lparr>item_id = ''todo_9f8e7d6c'', agent_id = ''456'', title = ''Call Bob'', description = ''at noon''\<rparr>"]
  by (simp add: unique_ids_def get_all_todos_eq update_todo_None delete_todo_None
        filter_by_id_agent_def)

section \<open>Update of a missing id\<close>

text \<open>
  C2. For every table and every \<open>todo_id\<close> that is not the id of a row of the executing
  agent, \<open>update_todo\<close> returns \<open>success: False\<close> with a message that contains the id, and
  leaves the rows unchanged.
\<close>

theorem update_todo_missing_id:
  assumes "tid \<notin> set (map item_id (filter_by_agent aid (rows db)))"
  shows "\<exists>msg. fst (update_todo aid tid ttl dsc db) =
            Returned (JDict [(''success'', JBool False), (''message'', JStr msg)]) \<and>
          sublist tid msg \<and>
          rows (snd (update_todo aid tid ttl dsc db)) = rows db"
proof -
  from assms have "\<forall>t\<in>set (rows db). \<not> (item_id t = tid \<and> agent_id t = aid)"
    by (auto simp: filter_by_agent_def)
  then have none: "first (filter_by_id_agent tid aid (rows db)) = None"
    unfolding filter_by_id_agent_def by (simp add: first_filter_None)
  have "sublist tid (''No todo found with ID '' @ tid)"
    by (rule suffix_imp_sublist) (rule suffix_appendI, rule suffix_order.refl)
  then show ?thesis
    by (simp add: update_todo_None [OF none])
qed

text \<open>An update of an id that no row has, on a table with one row.\<close>

theorem update_todo_missing_id_witness:
  "''todo_ffffffff'' \<notin> set (map item_id (filter_by_agent ''123''
      [\<lparr>item_id = ''todo_0a1b2c3d'', agent_id = ''123'', title = ''Buy milk'', description = ''2 litres''\<rparr>])) \<and>
   (\<exists>msg. fst (update_todo ''123'' ''todo_ffffffff'' ''Buy bread'' ''one loaf''
       \<lparr>rows = [\<lparr>item_id = ''todo_0a1b2c3d'', agent_id = ''123'', title = ''Buy milk'', description = ''2 litres''\<rparr>],
        events = []\<rparr>) =
       Returned (JDict [(''success'', JBool False), (''message'', JStr msg)]) \<and>
     sublist ''todo_ffffffff'' msg) \<and>
   rows (snd (update_todo ''123'' ''todo_ffffffff'' ''Buy bread'' ''one loaf''
       \<lparr>rows = [\<lparr>item_id = ''todo_0a1b2c3d'', agent_id = ''123'', title = ''Buy milk'', description = ''2 litres''\<rparr>],
        events = []\<rparr>)) =
     [\<lparr>item_id = ''todo_0a1b2c3d'', agent_id = ''123'', title = ''Buy milk'', description = ''2 litres''\<rparr>]"
proof -
  have h: "''todo_ffffffff'' \<notin> set (map item_id (filter_by_agent ''123'' (rows
      \<lparr>rows = [\<lparr>item_id = ''todo_0a1b2c3d'', agent_id = ''123'', title = ''Buy milk'', description = ''2 litres''\<rparr>],
       events = []\<rparr>)))"
    by (simp add: filter_by_agent_def)
  from update_todo_missing_id [OF h, of "''Buy bread''" "''one loaf''"] h
  show ?thesis by auto
qed

section \<open>Delete\<close>

text \<open>
  C3. On a table with unique ids that holds a row with the given id under the executing
  agent, \<open>delete_todo\<close> returns \<open>success: True\<close> and removes exactly that row: the rows
  afterwards are the rows before without it, in the same order. A second \<open>delete_todo\<close> of
  the same id returns \<open>success: False\<close> and changes nothing.
\<close>

theorem delete_todo_removes_exactly:
  assumes "unique_ids (rows db)" "todo \<in> set (rows db)"
    "agent_id todo = aid" "item_id todo = tid"
  shows "(\<exists>d. fst (delete_todo aid tid db) = Returned d \<and>
               dict_get d ''success'' = Some (JBool True)) \<and>
         rows (snd (delete_todo aid tid db)) = filter (\<lambda>t. t \<noteq> todo) (rows db) \<and>
         (\<exists>d. fst (delete_todo aid tid (snd (delete_todo aid tid db))) = Returned d \<and>
               dict_get d ''success'' = Some (JBool False)) \<and>
         rows (snd (delete_todo aid tid (snd (delete_todo aid tid db)))) =
           rows (snd (delete_todo aid tid db))"
proof -
  from assms have some: "first (filter_by_id_agent tid aid (rows db)) = Some todo"
    using first_filter_unique by blast
  let ?db1 = "snd (delete_todo aid tid db)"
  have r1: "rows ?db1 = remove1 todo (rows db)"
    by (simp add: delete_todo_Some [OF some])
  have "filter_by_id_agent tid aid (rows ?db1) = []"
    using filter_remove1_unique [OF assms(1,2)] assms(3,4) r1 by simp
  then have none: "first (filter_by_id_agent tid aid (rows ?db1)) = None"
    by simp
  have eq: "remove1 todo (rows db) = filter (\<lambda>t. t \<noteq> todo) (rows db)"
    using unique_ids_distinct [OF assms(1)]
    by (simp add: distinct_remove1_removeAll removeAll_filter_not_eq) metis
  have c1: "\<exists>d. fst (delete_todo aid tid db) = Returned d \<and>
                 dict_get d ''success'' = Some (JBool True)"
    by (simp add: delete_todo_Some [OF some])
  have c2: "rows ?db1 = filter (\<lambda>t. t \<noteq> todo) (rows db)"
    using r1 eq by simp
  have c3: "\<exists>d. fst (delete_todo aid tid ?db1) = Returned d \<and>
                 dict_get d ''success'' = Some (JBool False)"
    unfolding delete_todo_None [OF none] by simp
  have c4: "rows (snd (delete_todo aid tid ?db1)) = rows ?db1"
    unfolding delete_todo_None [OF none] by simp
  from c1 c2 c3 c4 show ?thesis by blast
qed

text \<open>Agent 123 deletes its own row from a table of two; the other row stays.\<close>

theorem delete_todo_removes_exactly_witness:
  "unique_ids
     [\<lparr>item_id = ''todo_0a1b2c3d'', agent_id = ''123'', title = ''Buy milk'', description = ''2 litres''\<rparr>,
      \<lparr>item_id = ''todo_9f8e7d6c'', agent_id = ''456'', title = ''Call Bob'', description = ''at noon''\<rparr>] \<and>
   fst (delete_todo ''123'' ''todo_0a1b2c3d''
     \<lparr>rows = [\<lparr>item_id = ''todo_0a1b2c3d'', agent_id = ''123'', title = ''Buy milk'', description = ''2 litres''\<rparr>,
              \<lparr>item_id = ''todo_9f8e7d6c'', agent_id = ''456'', title = ''Call Bob'', description = ''at noon''\<rparr>],
      events = []\<rparr>) =
     Returned (JDict [(''success'', JBool True),
                      (''message'', JStr (''Todo '' @ [CHR 0x27] @ ''Buy milk'' @ [CHR 0x27] @ '' deleted''))]) \<and>
   rows (snd (delete_todo ''123'' ''todo_0a1b2c3d''
     \<lparr>rows = [\<lparr>item_id = ''todo_0a1b2c3d'', agent_id = ''123'', title = ''Buy milk'', description = ''2 litres''\<rparr>,
              \<lparr>item_id = ''todo_9f8e7d6c'', agent_id = ''456'', title = ''Call Bob'', description = ''at noon''\<rparr>],
      events = []\<rparr>)) =
     [\<lparr>item_id = ''todo_9f8e7d6c'', agent_id = ''456'', title = ''Call Bob'', description = ''at noon''\<rparr>] \<and>
   (\<exists>d. fst (delete_todo ''123'' ''todo_0a1b2c3d'' (snd (delete_todo ''123'' ''todo_0a1b2c3d''
     \<lparr>rows = [\<lparr>item_id = ''todo_0a1b2c3d'', agent_id = ''123'', title = ''Buy milk'', description = ''2 litres''\<rparr>,
              \<lparr>item_id = ''todo_9f8e7d6c'', agent_id = ''456'', title = ''Call Bob'', description = ''at noon''\<rparr>],
      events = []\<rparr>))) = Returned d \<and> dict_get d ''success'' = Some (JBool False))"
  using delete_todo_removes_exactly [of
     "\<lparr>rows = [\<lparr>item_id = ''todo_0a1b2c3d'', agent_id = ''123'', title = ''Buy milk'', description = ''2 litres''\<rparr>,
              \<lparr>item_id = ''todo_9f8e7d6c'', agent_id = ''456'', title = ''Call Bob'', description = ''at noon''\<rparr>],
      events = []\<rparr>"
     "\<lparr>item_id = ''todo_0a1b2c3d'', agent_id = ''123'', title = ''Buy milk'', description = ''2 litres''\<rparr>"
     "''123''" "''todo_0a1b2c3d''"]
  by (simp add: unique_ids_def delete_todo_def with_session_def undisturbed_def commit_def
        breaks_unique_id_def DeleteTodoTool_execute_def filter_by_id_agent_def session_delete_def)

section \<open>Create, then list\<close>

text \<open>
  C4. Starting from an empty table, \<open>create_todo\<close> with title "Buy milk" followed by
  \<open>get_all_todos\<close> under the same agent id returns exactly one entry, whose title is
  "Buy milk"; \<open>get_all_todos\<close> under a different agent id returns no entry.
\<close>

theorem create_then_get_all:
  assumes "rows db = []"
  shows "(\<exists>i. fst (get_all_todos aid (snd (create_todo aid r ''Buy milk'' dsc db))) =
            Returned (JList [JDict [(''id'', JStr i), (''title'', JStr ''Buy milk''),
                                    (''description'', JStr dsc)]])) \<and>
         (aid' \<noteq> aid \<longrightarrow>
            fst (get_all_todos aid' (snd (create_todo aid r ''Buy milk'' dsc db))) =
              Returned (JList []))"
  using assms by (simp add: create_todo_fresh get_all_todos_eq)

text \<open>Agent 123 creates the todo; agent 123 sees it, agent 456 sees nothing.\<close>

theorem create_then_get_all_witness:
  "rows \<lparr>rows = [], events = []\<rparr> = [] \<and>
   (\<exists>i. fst (get_all_todos ''123'' (snd (create_todo ''123'' 0x0123456789abcdef0123456789abcdef
              ''Buy milk'' ''2 litres'' \<lparr>rows = [], events = []\<rparr>))) =
      Returned (JList [JDict [(''id'', JStr i), (''title'', JStr ''Buy milk''),
                              (''description'', JStr ''2 litres'')]])) \<and>
   fst (get_all_todos ''456'' (snd (create_todo ''123'' 0x0123456789abcdef0123456789abcdef
          ''Buy milk'' ''2 litres'' \<lparr>rows = [], events = []\<rparr>))) = Returned (JList [])"
  using create_then_get_all [of "\<lparr>rows = [], events = []\<rparr>" "''123''"
      "0x0123456789abcdef0123456789abcdef" "''2 litres''" "''456''"]
  by simp

section \<open>The result of create\<close>

lemma nibble_less_16: "unat (w AND (0xf :: 128 word)) < 16"
proof -
  have "unat (w AND 0xf) \<le> unat (0xf :: 128 word)"
    by (rule word_and_le1 [THEN word_le_nat_alt [THEN iffD1]])
  then show ?thesis by simp
qed

lemma length_uuid_hex: "length (uuid_hex u) = 32"
  by (simp add: uuid_hex_def)

lemma set_uuid_hex: "set (uuid_hex u) \<subseteq> set ''0123456789abcdef''"
proof
  fix c assume "c \<in> set (uuid_hex u)"
  then obtain k where "c = hexdigits ! unat (drop_bit (4 * (31 - k)) u AND 0xf)"
    by (auto simp: uuid_hex_def)
  moreover have "unat (drop_bit (4 * (31 - k)) u AND 0xf) < length hexdigits"
    using nibble_less_16 [of "drop_bit (4 * (31 - k)) u"] by (simp add: hexdigits_def)
  ultimately have "c \<in> set hexdigits" by (simp only: nth_mem)
  then show "c \<in> set ''0123456789abcdef''" by (simp only: hexdigits_def)
qed

lemma CreateTodoTool_execute_eq:
  "CreateTodoTool_execute aid r ttl dsc s =
     (Returned (JDict [(''id'', JStr (''todo_'' @ take 8 (uuid_hex (uuid4 r)))),
                       (''title'', JStr ttl), (''description'', JStr dsc)]),
      s @ [\<lparr>item_id = ''todo_'' @ take 8 (uuid_hex (uuid4 r)), agent_id = aid,
             title = ttl, description = dsc\<rparr>])"
  by (simp add: CreateTodoTool_execute_def session_add_def Let_def)

lemma uuid_hex_example:
  "take 8 (uuid_hex (uuid4 0x0123456789abcdef0123456789abcdef)) = ''01234567''"
  by code_simp

text \<open>
  A create that draws an id that is taken: the commit is refused, the tool raises and the
  table is as it was.
\<close>

lemma create_todo_taken_example:
  "create_todo ''456'' 0x0123456789abcdef0123456789abcdef ''Call Bob'' ''at noon''
     \<lparr>rows = [\<lparr>item_id = ''todo_01234567'', agent_id = ''123'', title = ''Buy milk'', description = ''2 litres''\<rparr>],
      events = []\<rparr> =
     (Raised ''PersistenceFailure'',
      \<lparr>rows = [\<lparr>item_id = ''todo_01234567'', agent_id = ''123'', title = ''Buy milk'', description = ''2 litres''\<rparr>],
       events = [Acquire, Execute, Commit, Rollback, Release]\<rparr>)"
  by (simp add: create_todo_taken uuid_hex_example)

text \<open>
  C10. For every title and description, and on every session, \<open>execute\<close> of \<open>create_todo\<close>
  returns a dictionary whose title and description are the arguments and whose id is
  "todo_" followed by exactly 8 lowercase hexadecimal characters, and the entity it adds
  to the session carries that id, the executing agent's id, the title and the
  description. When no persisted entity has that id, the tool returns this dictionary
  and the entity is persisted.
\<close>

theorem create_todo_result:
  "\<exists>h. length h = 8 \<and> set h \<subseteq> set ''0123456789abcdef'' \<and>
        CreateTodoTool_execute aid r ttl dsc s =
          (Returned (JDict [(''id'', JStr (''todo_'' @ h)), (''title'', JStr ttl),
                            (''description'', JStr dsc)]),
           s @ [\<lparr>item_id = ''todo_'' @ h, agent_id = aid, title = ttl, description = dsc\<rparr>]) \<and>
        (''todo_'' @ h \<notin> set (map item_id (rows db)) \<longrightarrow>
           fst (create_todo aid r ttl dsc db) =
             Returned (JDict [(''id'', JStr (''todo_'' @ h)), (''title'', JStr ttl),
                              (''description'', JStr dsc)]) \<and>
           rows (snd (create_todo aid r ttl dsc db)) =
             rows db @ [\<lparr>item_id = ''todo_'' @ h, agent_id = aid, title = ttl, description = dsc\<rparr>])"
proof -
  let ?h = "take 8 (uuid_hex (uuid4 r))"
  have "length ?h = 8" by (simp add: length_uuid_hex)
  moreover have "set ?h \<subseteq> set ''0123456789abcdef''"
    using set_take_subset set_uuid_hex by (rule subset_trans)
  ultimately show ?thesis
    by (intro exI [of _ ?h]) (simp add: CreateTodoTool_execute_eq create_todo_fresh)
qed

text \<open>
  The first create on an empty table: the id is new, the tool returns the dictionary and
  one row is persisted.
\<close>

theorem create_todo_result_witness:
  "''todo_01234567'' \<notin> set (map item_id (rows \<lparr>rows = [], events = []\<rparr>)) \<and>
   fst (create_todo ''123'' 0x0123456789abcdef0123456789abcdef ''Buy milk'' ''2 litres''
          \<lparr>rows = [], events = []\<rparr>) =
     Returned (JDict [(''id'', JStr ''todo_01234567''), (''title'', JStr ''Buy milk''),
                      (''description'', JStr ''2 litres'')]) \<and>
   rows (snd (create_todo ''123'' 0x0123456789abcdef0123456789abcdef ''Buy milk'' ''2 litres''
          \<lparr>rows = [], events = []\<rparr>)) =
     [\<lparr>item_id = ''todo_01234567'', agent_id = ''123'', title = ''Buy milk'',
       description = ''2 litres''\<rparr>]"
  using create_todo_result [of "''123''" "0x0123456789abcdef0123456789abcdef" "''Buy milk''"
      "''2 litres''" "[]" "\<lparr>rows = [], events = []\<rparr>"]
  by (simp add: create_todo_fresh uuid_hex_example)

section \<open>Failures are payloads\<close>

text \<open>
  C7. The leaf tools do not raise for a missing entity. For every argument, \<open>execute\<close> of
  \<open>create_todo\<close> returns a dictionary, and so does the tool when the id it draws is new;
  \<open>update_todo\<close>, \<open>delete_todo\<close> and \<open>get_all_todos\<close> always return a payload (a dictionary, or
  a list for \<open>get_all_todos\<close>); and when no row matches, \<open>update_todo\<close> and \<open>delete_todo\<close> return
  the dictionary with \<open>success: False\<close> and a message.
\<close>

theorem leaf_tools_return_payloads:
  "(\<exists>d. fst (CreateTodoTool_execute aid r ttl dsc s) = Returned (JDict d)) \<and>
   (''todo_'' @ take 8 (uuid_hex (uuid4 r)) \<notin> set (map item_id (rows db)) \<longrightarrow>
      (\<exists>d. fst (create_todo aid r ttl dsc db) = Returned (JDict d))) \<and>
   (\<exists>d. fst (update_todo aid tid ttl dsc db) = Returned (JDict d)) \<and>
   (\<exists>d. fst (delete_todo aid tid db) = Returned (JDict d)) \<and>
   (\<exists>es. fst (get_all_todos aid db) = Returned (JList es)) \<and>
   (first (filter_by_id_agent tid aid (rows db)) = None \<longrightarrow>
      fst (update_todo aid tid ttl dsc db) =
        Returned (JDict [(''success'', JBool False),
                         (''message'', JStr (''No todo found with ID '' @ tid))]) \<and>
      fst (delete_todo aid tid db) =
        Returned (JDict [(''success'', JBool False),
                         (''message'', JStr (''No todo found with ID '' @ tid))]))"
proof (intro conjI impI)
  show "\<exists>d. fst (CreateTodoTool_execute aid r ttl dsc s) = Returned (JDict d)"
    by (simp add: CreateTodoTool_execute_eq)
  show "\<exists>d. fst (update_todo aid tid ttl dsc db) = Returned (JDict d)"
    by (cases "first (filter_by_id_agent tid aid (rows db))")
       (simp_all add: update_todo_None update_todo_Some)
  show "\<exists>d. fst (delete_todo aid tid db) = Returned (JDict d)"
    by (cases "first (filter_by_id_agent tid aid (rows db))")
       (simp_all add: delete_todo_None delete_todo_Some)
  show "\<exists>es. fst (get_all_todos aid db) = Returned (JList es)"
    by (simp add: get_all_todos_eq)
next
  assume "''todo_'' @ take 8 (uuid_hex (uuid4 r)) \<notin> set (map item_id (rows db))"
  then show "\<exists>d. fst (create_todo aid r ttl dsc db) = Returned (JDict d)"
    by (simp add: create_todo_fresh)
next
  assume none: "first (filter_by_id_agent tid aid (rows db)) = None"
  show "fst (update_todo aid tid ttl dsc db) =
        Returned (JDict [(''success'', JBool False),
                         (''message'', JStr (''No todo found with ID '' @ tid))])"
    by (simp add: update_todo_None [OF none])
  show "fst (delete_todo aid tid db) =
        Returned (JDict [(''success'', JBool False),
                         (''message'', JStr (''No todo found with ID '' @ tid))])"
    by (simp add: delete_todo_None [OF none])
qed

text \<open>
  On the empty table every id is new and no id is found: create returns its dictionary,
  and update and delete answer with the failure payload.
\<close>

theorem leaf_tools_return_payloads_witness:
  "first (filter_by_id_agent ''todo_0a1b2c3d'' ''123'' []) = None \<and>
   (\<exists>d. fst (create_todo ''123'' 0 ''Buy bread'' ''one loaf'' \<lparr>rows = [], events = []\<rparr>) =
      Returned (JDict d)) \<and>
   fst (update_todo ''123'' ''todo_0a1b2c3d'' ''Buy bread'' ''one loaf'' \<lparr>rows = [], events = []\<rparr>) =
     Returned (JDict [(''success'', JBool False),
                      (''message'', JStr ''No todo found with ID todo_0a1b2c3d'')]) \<and>
   fst (delete_todo ''123'' ''todo_0a1b2c3d'' \<lparr>rows = [], events = []\<rparr>) =
     Returned (JDict [(''success'', JBool False),
                      (''message'', JStr ''No todo found with ID todo_0a1b2c3d'')])"
  using leaf_tools_return_payloads [of "''123''" 0 "''Buy bread''" "''one loaf''" "[]"
      "\<lparr>rows = [], events = []\<rparr>" "''todo_0a1b2c3d''"]
  by (simp add: filter_by_id_agent_def)

section \<open>The nested agent\<close>


section \<open>The transactional scope around a tool\<close>

text \<open>
  C6. Around every wrapped \<open>execute\<close>, whatever is cancelled and whether or not the commit
  fails. When the acquisition is cancelled, nothing is acquired, \<open>execute\<close> does not run and
  nothing changes. Otherwise the unit of work is acquired first and \<open>execute\<close> runs on it
  (the session it is given holds the persisted rows); the commit is called exactly when
  \<open>execute\<close> returns; the unit of work is rolled back when \<open>execute\<close> raises or is cancelled
  and when the commit fails or is cancelled, and then the persisted rows are what they
  were; the rows of the session are persisted when the commit succeeds; on each of these
  paths the unit of work is released last and exactly once; and the caller gets the
  outcome of \<open>execute\<close>, or the failure of the commit, or the cancellation.
\<close>

theorem with_session_contract:
  "(cancel_acquire f \<longrightarrow> with_session f execute db = (Cancelled, db)) \<and>
   (\<not> cancel_acquire f \<longrightarrow>
      (\<exists>log. events (snd (with_session f execute db)) =
               events db @ [Acquire, Execute] @ log @ [Release] \<and>
             (log = [Commit] \<or> log = [Commit, Rollback] \<or> log = [Rollback]) \<and>
             (Commit \<in> set log \<longleftrightarrow> (\<exists>v. fst (execute (rows db)) = Returned v)) \<and>
             (Rollback \<in> set log \<longleftrightarrow>
                \<not> ((\<exists>v. fst (execute (rows db)) = Returned v) \<and>
                   commit f (rows db) (snd (execute (rows db))) = Committed))) \<and>
      count_list (drop (length (events db)) (events (snd (with_session f execute db)))) Acquire = 1 \<and>
      count_list (drop (length (events db)) (events (snd (with_session f execute db)))) Release = 1 \<and>
      ((\<exists>v. fst (execute (rows db)) = Returned v) \<and>
         commit f (rows db) (snd (execute (rows db))) = Committed \<longrightarrow>
         rows (snd (with_session f execute db)) = snd (execute (rows db))) \<and>
      (\<not> ((\<exists>v. fst (execute (rows db)) = Returned v) \<and>
           commit f (rows db) (snd (execute (rows db))) = Committed) \<longrightarrow>
         rows (snd (with_session f execute db)) = rows db) \<and>
      (cancel_release f \<longrightarrow> fst (with_session f execute db) = Cancelled) \<and>
      (\<not> cancel_release f \<longrightarrow>
         fst (with_session f execute db) =
           (case fst (execute (rows db)) of
              Returned v \<Rightarrow>
                (case commit f (rows db) (snd (execute (rows db))) of
                   Committed \<Rightarrow> Returned v
                 | CommitFailed \<Rightarrow> Raised ''PersistenceFailure''
                 | CommitInterrupted \<Rightarrow> Cancelled)
            | Raised e \<Rightarrow> Raised e
            | Cancelled \<Rightarrow> Cancelled)))"
proof (cases "cancel_acquire f")
  case True
  then show ?thesis by (simp add: with_session_def)
next
  case False
  obtain out s' where e: "execute (rows db) = (out, s')" by (cases "execute (rows db)")
  show ?thesis
  proof (cases out)
    case (Returned v)
    with False e show ?thesis
      by (cases "commit f (rows db) s'") (simp_all add: with_session_def)
  next
    case (Raised x)
    with False e show ?thesis by (simp add: with_session_def)
  next
    case Cancelled
    with False e show ?thesis by (simp add: with_session_def)
  qed
qed

text \<open>
  A tool that adds a row and then raises: nothing is persisted, and the log of the scope
  is acquire, execute, rollback, release. A tool that adds a row with a new id and
  returns: the row is persisted, and the log is acquire, execute, commit, release. A tool
  that adds a row with a taken id and returns: the commit fails, nothing is persisted, and
  the log is acquire, execute, commit, rollback, release. A tool that returns while the
  task is cancelled during the commit: nothing is persisted, the unit of work is released
  and the cancellation propagates. A task cancelled during the acquisition: nothing
  happens.
\<close>

theorem with_session_contract_witness:
  "with_session undisturbed (\<lambda>s. (Raised ''ValueError'' :: json outcome,
       session_add \<lparr>item_id = ''todo_0a1b2c3d'', agent_id = ''123'', title = ''Buy milk'', description = ''2 litres''\<rparr> s))
     \<lparr>rows = [], events = []\<rparr> =
     (Raised ''ValueError'', \<lparr>rows = [], events = [Acquire, Execute, Rollback, Release]\<rparr>) \<and>
   with_session undisturbed (\<lambda>s. (Returned (JBool True),
       session_add \<lparr>item_id = ''todo_0a1b2c3d'', agent_id = ''123'', title = ''Buy milk'', description = ''2 litres''\<rparr> s))
     \<lparr>rows = [], events = []\<rparr> =
     (Returned (JBool True),
      \<lparr>rows = [\<lparr>item_id = ''todo_0a1b2c3d'', agent_id = ''123'', title = ''Buy milk'', description = ''2 litres''\<rparr>],
       events = [Acquire, Execute, Commit, Release]\<rparr>) \<and>
   with_session undisturbed (\<lambda>s. (Returned (JBool True),
       session_add \<lparr>item_id = ''todo_0a1b2c3d'', agent_id = ''456'', title = ''Call Bob'', description = ''at noon''\<rparr> s))
     \<lparr>rows = [\<lparr>item_id = ''todo_0a1b2c3d'', agent_id = ''123'', title = ''Buy milk'', description = ''2 litres''\<rparr>],
      events = []\<rparr> =
     (Raised ''PersistenceFailure'',
      \<lparr>rows = [\<lparr>item_id = ''todo_0a1b2c3d'', agent_id = ''123'', title = ''Buy milk'', description = ''2 litres''\<rparr>],
       events = [Acquire, Execute, Commit, Rollback, Release]\<rparr>) \<and>
   with_session \<lparr>cancel_acquire = False, on_commit = CommitCancelled, cancel_release = False\<rparr>
     (\<lambda>s. (Returned (JBool True),
       session_add \<lparr>item_id = ''todo_0a1b2c3d'', agent_id = ''123'', title = ''Buy milk'', description = ''2 litres''\<rparr> s))
     \<lparr>rows = [], events = []\<rparr> =
     (Cancelled, \<lparr>rows = [], events = [Acquire, Execute, Commit, Rollback, Release]\<rparr>) \<and>
   with_session \<lparr>cancel_acquire = True, on_commit = NoCommitFault, cancel_release = False\<rparr>
     (\<lambda>s. (Returned (JBool True),
       session_add \<lparr>item_id = ''todo_0a1b2c3d'', agent_id = ''123'', title = ''Buy milk'', description = ''2 litres''\<rparr> s))
     \<lparr>rows = [], events = []\<rparr> =
     (Cancelled, \<lparr>rows = [], events = []\<rparr>)"
  using with_session_contract [of undisturbed "\<lambda>s. (Raised ''ValueError'' :: json outcome,
       session_add \<lparr>item_id = ''todo_0a1b2c3d'', agent_id = ''123'', title = ''Buy milk'', description = ''2 litres''\<rparr> s)"
     "\<lparr>rows = [], events = []\<rparr>"]
    with_session_contract [of undisturbed "\<lambda>s. (Returned (JBool True),
       session_add \<lparr>item_id = ''todo_0a1b2c3d'', agent_id = ''456'', title = ''Call Bob'', description = ''at noon''\<rparr> s)"
     "\<lparr>rows = [\<lparr>item_id = ''todo_0a1b2c3d'', agent_id = ''123'', title = ''Buy milk'', description = ''2 litres''\<rparr>],
      events = []\<rparr>"]
  by (simp add: with_session_def undisturbed_def commit_def breaks_unique_id_def session_add_def)

section \<open>The bound on the tool loop\<close>

lemma drive_terminal: "terminal (state (drive rt a s))"
proof (induction rt a s rule: drive.induct)
  case (1 rt a s)
  show ?case
  proof (cases "terminal (state s)")
    case True
    then show ?thesis by (subst drive.simps) simp
  next
    case False
    with 1 show ?thesis by (subst drive.simps) simp
  qed
qed

lemma step_rounds: "rounds s \<le> max_rounds rt \<Longrightarrow> rounds (step rt a s) \<le> max_rounds rt"
  by (auto simp: step_def Let_def split: agent_state.splits response.splits prod.splits)

lemma drive_rounds: "rounds s \<le> max_rounds rt \<Longrightarrow> rounds (drive rt a s) \<le> max_rounds rt"
proof (induction rt a s rule: drive.induct)
  case (1 rt a s)
  show ?case
  proof (cases "terminal (state s)")
    case True
    with 1(2) show ?thesis by (subst drive.simps) simp
  next
    case False
    from 1(2) have "rounds (step rt a s) \<le> max_rounds rt" by (rule step_rounds)
    with 1(1) [OF False] have "rounds (drive rt a (step rt a s)) \<le> max_rounds rt" .
    with False show ?thesis by (subst drive.simps) simp
  qed
qed

lemma step_result:
  "(terminal (state s) \<longrightarrow> result s \<noteq> None) \<Longrightarrow>
   terminal (state (step rt a s)) \<longrightarrow> result (step rt a s) \<noteq> None"
  by (auto simp: step_def Let_def split: agent_state.splits response.splits prod.splits)

lemma drive_result:
  "(terminal (state s) \<longrightarrow> result s \<noteq> None) \<Longrightarrow> result (drive rt a s) \<noteq> None"
proof (induction rt a s rule: drive.induct)
  case (1 rt a s)
  show ?case
  proof (cases "terminal (state s)")
    case True
    with 1(2) show ?thesis by (subst drive.simps) simp
  next
    case False
    from 1(2) have "terminal (state (step rt a s)) \<longrightarrow> result (step rt a s) \<noteq> None"
      by (rule step_result)
    with 1(1) [OF False] have "result (drive rt a (step rt a s)) \<noteq> None" .
    with False show ?thesis by (subst drive.simps) simp
  qed
qed

lemma step_pathological:
  assumes "\<forall>n p ts h. \<exists>cs. capability rt n p ts h = ToolCalls cs" "\<not> terminal (state s)"
  shows "\<not> terminal (state (step rt a s)) \<or>
         (state (step rt a s) = Failed \<and> result (step rt a s) = Some (Failure ToolLoopExceeded))"
proof (cases "state s")
  case QueryingModel
  from assms(1) obtain cs where
    "capability rt (queries s) (who_am_i a) (tools a) (messages (history s)) = ToolCalls cs"
    by blast
  with QueryingModel show ?thesis by (simp add: step_def Let_def)
qed (use assms(2) in \<open>auto simp: step_def Let_def split: prod.splits\<close>)

lemma drive_pathological:
  "\<forall>n p ts h. \<exists>cs. capability rt n p ts h = ToolCalls cs \<Longrightarrow> \<not> terminal (state s) \<Longrightarrow>
   state (drive rt a s) = Failed \<and> result (drive rt a s) = Some (Failure ToolLoopExceeded)"
proof (induction rt a s rule: drive.induct)
  case (1 rt a s)
  let ?s' = "step rt a s"
  have unfold: "drive rt a s = drive rt a ?s'"
    using 1(3) by (subst drive.simps) simp
  show ?case
  proof (cases "terminal (state ?s')")
    case True
    with step_pathological [OF 1(2,3), of a]
    have "state ?s' = Failed \<and> result ?s' = Some (Failure ToolLoopExceeded)" by blast
    moreover from True have "drive rt a ?s' = ?s'" by (subst drive.simps) simp
    ultimately show ?thesis by (simp add: unfold)
  next
    case False
    with 1(1) [OF 1(3) 1(2)] show ?thesis by (simp add: unfold)
  qed
qed

text \<open>
  C9. The cycle of querying the model and dispatching tools is bounded by the maximum
  number of rounds. For every model capability, \<open>run\<close> ends in a terminal state with an
  answer or a failure, after at most the maximum number of rounds; for a capability that
  always requests another tool call it ends in \<open>Failed\<close> with \<open>ToolLoopExceeded\<close>.
\<close>

theorem run_bounded_by_round_cap:
  "terminal (state (drive rt a (initial_state rt a request w))) \<and>
   (\<exists>r. fst (Agent_run rt a request w) = Some r) \<and>
   rounds (drive rt a (initial_state rt a request w)) \<le> max_rounds rt \<and>
   ((\<forall>n p ts h. \<exists>cs. capability rt n p ts h = ToolCalls cs) \<longrightarrow>
      state (drive rt a (initial_state rt a request w)) = Failed \<and>
      fst (Agent_run rt a request w) = Some (Failure ToolLoopExceeded))"
proof (intro conjI impI)
  show "terminal (state (drive rt a (initial_state rt a request w)))"
    by (rule drive_terminal)
  have "result (drive rt a (initial_state rt a request w)) \<noteq> None"
    by (rule drive_result) (simp add: initial_state_def)
  then show "\<exists>r. fst (Agent_run rt a request w) = Some r"
    by (auto simp: Agent_run_def Let_def)
  show "rounds (drive rt a (initial_state rt a request w)) \<le> max_rounds rt"
    by (rule drive_rounds) (simp add: initial_state_def)
next
  assume p: "\<forall>n p ts h. \<exists>cs. capability rt n p ts h = ToolCalls cs"
  have nt: "\<not> terminal (state (initial_state rt a request w))"
    by (simp add: initial_state_def)
  from drive_pathological [OF p nt, of a]
  show "state (drive rt a (initial_state rt a request w)) = Failed"
    and "fst (Agent_run rt a request w) = Some (Failure ToolLoopExceeded)"
    by (simp_all add: Agent_run_def Let_def)
qed

text \<open>
  A model that asks for \<open>get_all_todos\<close> on every query, under a cap of two rounds: the run
  fails with \<open>ToolLoopExceeded\<close>.
\<close>

theorem run_bounded_by_round_cap_witness:
  "fst (Agent_run
     \<lparr>max_rounds = 2, max_attempts = 1,
      capability = (\<lambda>n p ts h. ToolCalls [(''get_all_todos'', JDict [])]),
      dispatch = (\<lambda>c w. (JList [], w)),
      append_message = MessageStorage_append (\<lambda>m. None :: nat option)\<rparr>
     \<lparr>client = (), get_id = ''123'', message_storage = MessageStorage_new 20,
      who_am_i = WHO_AM_I,
      tools = [CreateTodoTool, UpdateTodoTool, DeleteTodoTool, GetAllTodosTool]\<rparr>
     ''show my todos'' ()) = Some (Failure ToolLoopExceeded)"
  using run_bounded_by_round_cap [of
     "\<lparr>max_rounds = 2, max_attempts = 1,
      capability = (\<lambda>n p ts h. ToolCalls [(''get_all_todos'', JDict [])]),
      dispatch = (\<lambda>c w. (JList [], w)),
      append_message = MessageStorage_append (\<lambda>m. None :: nat option)\<rparr>"
     "\<lparr>client = (), get_id = ''123'', message_storage = MessageStorage_new 20,
      who_am_i = WHO_AM_I,
      tools = [CreateTodoTool, UpdateTodoTool, DeleteTodoTool, GetAllTodosTool]\<rparr>"
     "''show my todos''" "()"]
  by simp

section \<open>The message history\<close>

lemma length_evict: "length (evict call_of n ms) \<le> n"
  by (induction call_of n ms rule: evict.induct) auto

lemma evict_within: "length ms \<le> n \<Longrightarrow> evict call_of n ms = ms"
  by (cases ms) auto

lemma set_evict: "set (evict call_of n ms) \<subseteq> set ms"
  by (induction call_of n ms rule: evict.induct) auto

lemma same_invocation_self:
  "is_tool_call call_of i x \<or> is_tool_result call_of i x \<Longrightarrow> same_invocation call_of x x"
  by (auto simp: same_invocation_def is_tool_call_def is_tool_result_def)

lemma same_invocation_trans:
  "same_invocation call_of m e \<Longrightarrow> same_invocation call_of e x \<Longrightarrow> same_invocation call_of m x"
  by (auto simp: same_invocation_def is_tool_call_def is_tool_result_def split: option.splits)

lemma same_invocation_pair:
  "is_tool_call call_of i c \<Longrightarrow> is_tool_result call_of i r \<Longrightarrow>
   same_invocation call_of e c = same_invocation call_of e r"
  by (auto simp: same_invocation_def is_tool_call_def is_tool_result_def split: option.splits)

lemma take_drop_filter:
  "\<exists>j. take k (filter P xs) = filter P (take j xs) \<and> drop k (filter P xs) = filter P (drop j xs)"
proof (induction xs arbitrary: k)
  case Nil
  show ?case by simp
next
  case (Cons x xs)
  show ?case
  proof (cases "P x")
    case False
    from Cons [of k] obtain j where
      "take k (filter P xs) = filter P (take j xs)" "drop k (filter P xs) = filter P (drop j xs)"
      by blast
    with False have "take k (filter P (x # xs)) = filter P (take (Suc j) (x # xs)) \<and>
        drop k (filter P (x # xs)) = filter P (drop (Suc j) (x # xs))"
      by simp
    then show ?thesis by blast
  next
    case True
    show ?thesis
    proof (cases k)
      case 0
      have "take k (filter P (x # xs)) = filter P (take 0 (x # xs)) \<and>
          drop k (filter P (x # xs)) = filter P (drop 0 (x # xs))"
        using 0 by simp
      then show ?thesis by blast
    next
      case (Suc k')
      from Cons [of k'] obtain j where
        "take k' (filter P xs) = filter P (take j xs)" "drop k' (filter P xs) = filter P (drop j xs)"
        by blast
      with True Suc have "take k (filter P (x # xs)) = filter P (take (Suc j) (x # xs)) \<and>
          drop k (filter P (x # xs)) = filter P (drop (Suc j) (x # xs))"
        by simp
      then show ?thesis by blast
    qed
  qed
qed

text \<open>
  What an eviction leaves: the \<open>k\<close> oldest messages go, and with them the later messages
  paired with one of them; every other message stays, in its place.
\<close>

lemma evict_oldest_first:
  "\<exists>k. evict call_of n ms =
         filter (\<lambda>x. \<not> list_ex (\<lambda>e. same_invocation call_of e x) (take k ms)) (drop k ms)"
proof (induction call_of n ms rule: evict.induct)
  case (1 call_of n)
  show ?case by simp
next
  case (2 call_of n m ms)
  show ?case
  proof (cases "length (m # ms) \<le> n")
    case True
    then have "evict call_of n (m # ms) =
        filter (\<lambda>x. \<not> list_ex (\<lambda>e. same_invocation call_of e x) (take 0 (m # ms))) (drop 0 (m # ms))"
      by simp
    then show ?thesis by blast
  next
    case False
    let ?P = "\<lambda>x. \<not> same_invocation call_of m x"
    from 2 False obtain k' where k':
      "evict call_of n (filter ?P ms) =
         filter (\<lambda>x. \<not> list_ex (\<lambda>e. same_invocation call_of e x) (take k' (filter ?P ms)))
           (drop k' (filter ?P ms))"
      by auto
    obtain j where j: "take k' (filter ?P ms) = filter ?P (take j ms)"
        "drop k' (filter ?P ms) = filter ?P (drop j ms)"
      using take_drop_filter [of k' ?P ms] by blast
    have "evict call_of n (m # ms) = evict call_of n (filter ?P ms)"
      using False by simp
    also have "\<dots> = filter (\<lambda>x. \<not> list_ex (\<lambda>e. same_invocation call_of e x) (filter ?P (take j ms)))
                      (filter ?P (drop j ms))"
      using k' j by simp
    also have "\<dots> = filter (\<lambda>x. \<not> list_ex (\<lambda>e. same_invocation call_of e x) (m # take j ms))
                      (drop j ms)"
      unfolding filter_filter
      by (rule filter_cong) (auto simp: list_ex_iff dest: same_invocation_trans)
    finally have "evict call_of n (m # ms) =
        filter (\<lambda>x. \<not> list_ex (\<lambda>e. same_invocation call_of e x) (take (Suc j) (m # ms)))
          (drop (Suc j) (m # ms))"
      by simp
    then show ?thesis by blast
  qed
qed

lemma evict_keeps_pairs:
  assumes "is_tool_call call_of i c" "is_tool_result call_of i r" "c \<in> set ms" "r \<in> set ms"
  shows "c \<in> set (evict call_of n ms) \<longleftrightarrow> r \<in> set (evict call_of n ms)"
  using assms
proof (induction call_of n ms rule: evict.induct)
  case (1 call_of n)
  then show ?case by simp
next
  case (2 call_of n m ms)
  show ?case
  proof (cases "length (m # ms) \<le> n")
    case True
    with 2(4,5) show ?thesis by simp
  next
    case False
    let ?ms' = "filter (\<lambda>x. \<not> same_invocation call_of m x) ms"
    have ev: "evict call_of n (m # ms) = evict call_of n ?ms'"
      using False by simp
    have same: "same_invocation call_of m c = same_invocation call_of m r"
      using 2(2,3) by (rule same_invocation_pair)
    show ?thesis
    proof (cases "same_invocation call_of m c")
      case True
      with same have "c \<notin> set ?ms'" "r \<notin> set ?ms'" by simp_all
      with set_evict [of call_of n ?ms'] show ?thesis unfolding ev by blast
    next
      case no: False
      have "c \<noteq> m" "r \<noteq> m"
        using no same same_invocation_self [of call_of i c] same_invocation_self [of call_of i r]
          2(2,3) by auto
      with 2(4,5) no same have "c \<in> set ?ms'" "r \<in> set ?ms'" by auto
      with 2(1) [OF False 2(2,3)] show ?thesis unfolding ev by blast
    qed
  qed
qed

lemma appends_snoc:
  "appends call_of (ms @ [m]) h = MessageStorage_append call_of m (appends call_of ms h)"
  by (simp add: appends_def)

lemma max_size_append: "max_size (MessageStorage_append call_of m h) = max_size h"
  by (simp add: MessageStorage_append_def)

lemma max_size_appends: "max_size (appends call_of ms h) = max_size h"
  by (induction ms rule: rev_induct) (simp_all add: appends_def max_size_append)

lemma length_appends:
  "length (messages h) \<le> max_size h \<Longrightarrow> length (messages (appends call_of ms h)) \<le> max_size h"
proof (induction ms rule: rev_induct)
  case Nil
  then show ?case by (simp add: appends_def)
next
  case (snoc m ms)
  have "length (messages (appends call_of (ms @ [m]) h)) \<le> max_size (appends call_of ms h)"
    by (simp add: appends_snoc MessageStorage_append_def length_evict)
  then show ?case by (simp only: max_size_appends)
qed

text \<open>
  C8, as the history does it. For every sequence of appends to a message history of
  maximum size N the length never exceeds N. An append that does not exceed N evicts
  nothing. An append that would exceed N evicts the oldest entries first, each together
  with the later messages paired with it, and nothing else. So an eviction never
  separates a pair: of a tool-call and a tool-result of it that are both in the history
  when a message is appended, both are retained or both are evicted.
\<close>

theorem message_history_bounded_fifo_pairs_together:
  "length (messages (appends call_of ms (MessageStorage_new n))) \<le> n \<and>
   (length (messages h) < max_size h \<longrightarrow>
      messages (MessageStorage_append call_of m h) = messages h @ [m]) \<and>
   (\<exists>k. messages (MessageStorage_append call_of m h) =
      filter (\<lambda>x. \<not> list_ex (\<lambda>e. same_invocation call_of e x) (take k (messages h @ [m])))
        (drop k (messages h @ [m]))) \<and>
   (is_tool_call call_of i c \<and> is_tool_result call_of i r \<and>
    c \<in> set (messages h @ [m]) \<and> r \<in> set (messages h @ [m]) \<longrightarrow>
      (c \<in> set (messages (MessageStorage_append call_of m h)) \<longleftrightarrow>
       r \<in> set (messages (MessageStorage_append call_of m h))))"
proof (intro conjI impI)
  show "length (messages (appends call_of ms (MessageStorage_new n))) \<le> n"
    using length_appends [of "MessageStorage_new n" call_of ms]
    by (simp add: MessageStorage_new_def)
  show "messages (MessageStorage_append call_of m h) = messages h @ [m]"
    if "length (messages h) < max_size h"
    using that by (simp add: MessageStorage_append_def evict_within)
  show "\<exists>k. messages (MessageStorage_append call_of m h) =
      filter (\<lambda>x. \<not> list_ex (\<lambda>e. same_invocation call_of e x) (take k (messages h @ [m])))
        (drop k (messages h @ [m]))"
    using evict_oldest_first [of call_of "max_size h" "messages h @ [m]"]
    by (simp add: MessageStorage_append_def)
  show "c \<in> set (messages (MessageStorage_append call_of m h)) \<longleftrightarrow>
        r \<in> set (messages (MessageStorage_append call_of m h))"
    if "is_tool_call call_of i c \<and> is_tool_result call_of i r \<and>
        c \<in> set (messages h @ [m]) \<and> r \<in> set (messages h @ [m])"
    using that evict_keeps_pairs [of call_of i c r "messages h @ [m]" "max_size h"]
    by (simp add: MessageStorage_append_def)
qed

text \<open>
  A request, a tool-call, its tool-result and the answer. With room for three messages
  the request is evicted and the pair stays; with room for two the eviction of the
  tool-call takes its tool-result along, and only the answer stays.
\<close>

theorem message_history_bounded_fifo_pairs_together_witness:
  "messages (appends (\<lambda>m. dict_get (content m) ''call'')
     [\<lparr>role = User, content = JStr ''list my todos''\<rparr>,
      \<lparr>role = Assistant, content = JDict [(''call'', JStr ''1''), (''name'', JStr ''todo_manager'')]\<rparr>,
      \<lparr>role = Tool, content = JDict [(''call'', JStr ''1''), (''result'', JStr ''Buy milk'')]\<rparr>,
      \<lparr>role = Assistant, content = JStr ''You have one todo.''\<rparr>]
     (MessageStorage_new 3)) =
     [\<lparr>role = Assistant, content = JDict [(''call'', JStr ''1''), (''name'', JStr ''todo_manager'')]\<rparr>,
      \<lparr>role = Tool, content = JDict [(''call'', JStr ''1''), (''result'', JStr ''Buy milk'')]\<rparr>,
      \<lparr>role = Assistant, content = JStr ''You have one todo.''\<rparr>] \<and>
   is_tool_call (\<lambda>m. dict_get (content m) ''call'') (JStr ''1'')
      \<lparr>role = Assistant, content = JDict [(''call'', JStr ''1''), (''name'', JStr ''todo_manager'')]\<rparr> \<and>
   is_tool_result (\<lambda>m. dict_get (content m) ''call'') (JStr ''1'')
      \<lparr>role = Tool, content = JDict [(''call'', JStr ''1''), (''result'', JStr ''Buy milk'')]\<rparr> \<and>
   messages (MessageStorage_append (\<lambda>m. dict_get (content m) ''call'')
      \<lparr>role = Assistant, content = JStr ''You have one todo.''\<rparr>
      \<lparr>max_size = 2, messages =
        [\<lparr>role = Assistant, content = JDict [(''call'', JStr ''1''), (''name'', JStr ''todo_manager'')]\<rparr>,
         \<lparr>role = Tool, content = JDict [(''call'', JStr ''1''), (''result'', JStr ''Buy milk'')]\<rparr>]\<rparr>) =
     [\<lparr>role = Assistant, content = JStr ''You have one todo.''\<rparr>] \<and>
   messages (MessageStorage_append (\<lambda>m. dict_get (content m) ''call'')
      \<lparr>role = Assistant, content = JStr ''You have one todo.''\<rparr>
      \<lparr>max_size = 20, messages =
        [\<lparr>role = Assistant, content = JDict [(''call'', JStr ''1''), (''name'', JStr ''todo_manager'')]\<rparr>,
         \<lparr>role = Tool, content = JDict [(''call'', JStr ''1''), (''result'', JStr ''Buy milk'')]\<rparr>]\<rparr>) =
     [\<lparr>role = Assistant, content = JDict [(''call'', JStr ''1''), (''name'', JStr ''todo_manager'')]\<rparr>,
      \<lparr>role = Tool, content = JDict [(''call'', JStr ''1''), (''result'', JStr ''Buy milk'')]\<rparr>,
      \<lparr>role = Assistant, content = JStr ''You have one todo.''\<rparr>]"
  using message_history_bounded_fifo_pairs_together [where call_of = "\<lambda>m. dict_get (content m) ''call''"
     and n = 3 and i = "JStr ''1''" and ms =
     "[\<lparr>role = User, content = JStr ''list my todos''\<rparr>,
      \<lparr>role = Assistant, content = JDict [(''call'', JStr ''1''), (''name'', JStr ''todo_manager'')]\<rparr>,
      \<lparr>role = Tool, content = JDict [(''call'', JStr ''1''), (''result'', JStr ''Buy milk'')]\<rparr>,
      \<lparr>role = Assistant, content = JStr ''You have one todo.''\<rparr>]"
     and h = "\<lparr>max_size = 2, messages =
        [\<lparr>role = Assistant, content = JDict [(''call'', JStr ''1''), (''name'', JStr ''todo_manager'')]\<rparr>,
         \<lparr>role = Tool, content = JDict [(''call'', JStr ''1''), (''result'', JStr ''Buy milk'')]\<rparr>]\<rparr>"
     and m = "\<lparr>role = Assistant, content = JStr ''You have one todo.''\<rparr>"
     and c = "\<lparr>role = Assistant, content = JDict [(''call'', JStr ''1''), (''name'', JStr ''todo_manager'')]\<rparr>"
     and r = "\<lparr>role = Tool, content = JDict [(''call'', JStr ''1''), (''result'', JStr ''Buy milk'')]\<rparr>"]
  by (simp add: appends_def MessageStorage_append_def MessageStorage_new_def same_invocation_def
        is_tool_call_def is_tool_result_def)

text \<open>
  The claim as it is worded does not hold. With room for twenty messages, after a request
  and a tool-call the tool-call is retained and no tool-result of it is. With room for
  one message, after two tool-calls and the tool-result of the first, that tool-result is
  retained and its tool-call, evicted before the tool-result was appended, is not.
\<close>

theorem message_history_pairing_counterexample:
  "messages (appends (\<lambda>m. dict_get (content m) ''call'')
     [\<lparr>role = User, content = JStr ''list my todos''\<rparr>,
      \<lparr>role = Assistant, content = JDict [(''call'', JStr ''1''), (''name'', JStr ''todo_manager'')]\<rparr>]
     (MessageStorage_new 20)) =
     [\<lparr>role = User, content = JStr ''list my todos''\<rparr>,
      \<lparr>role = Assistant, content = JDict [(''call'', JStr ''1''), (''name'', JStr ''todo_manager'')]\<rparr>] \<and>
   is_tool_call (\<lambda>m. dict_get (content m) ''call'') (JStr ''1'')
      \<lparr>role = Assistant, content = JDict [(''call'', JStr ''1''), (''name'', JStr ''todo_manager'')]\<rparr> \<and>
   \<not> list_ex (is_tool_result (\<lambda>m. dict_get (content m) ''call'') (JStr ''1''))
     [\<lparr>role = User, content = JStr ''list my todos''\<rparr>,
      \<lparr>role = Assistant, content = JDict [(''call'', JStr ''1''), (''name'', JStr ''todo_manager'')]\<rparr>] \<and>
   messages (appends (\<lambda>m. dict_get (content m) ''call'')
     [\<lparr>role = Assistant, content = JDict [(''call'', JStr ''1''), (''name'', JStr ''todo_manager'')]\<rparr>,
      \<lparr>role = Assistant, content = JDict [(''call'', JStr ''2''), (''name'', JStr ''todo_manager'')]\<rparr>,
      \<lparr>role = Tool, content = JDict [(''call'', JStr ''1''), (''result'', JStr ''Buy milk'')]\<rparr>]
     (MessageStorage_new 1)) =
     [\<lparr>role = Tool, content = JDict [(''call'', JStr ''1''), (''result'', JStr ''Buy milk'')]\<rparr>] \<and>
   is_tool_result (\<lambda>m. dict_get (content m) ''call'') (JStr ''1'')
      \<lparr>role = Tool, content = JDict [(''call'', JStr ''1''), (''result'', JStr ''Buy milk'')]\<rparr> \<and>
   \<not> list_ex (is_tool_call (\<lambda>m. dict_get (content m) ''call'') (JStr ''1''))
     [\<lparr>role = Tool, content = JDict [(''call'', JStr ''1''), (''result'', JStr ''Buy milk'')]\<rparr>]"
  by (simp add: appends_def MessageStorage_append_def MessageStorage_new_def same_invocation_def
        is_tool_call_def is_tool_result_def)

end
